theory Spec2Isabelle
  imports Complex_Main
begin

section \<open>Data model of app.py\<close>

text \<open>
  The dashboard keeps one uploaded data frame in a \<open>dcc.Store\<close> and derives four KPI
  strings and five figures from it. A pandas data frame is modelled as the ordered list
  of its labelled columns. A column of numeric dtype (int64, float64) holds numbers, with
  NaN (a missing cell) as \<open>None\<close>; every other dtype is an object column of strings.
  A cell that is present holds the real number its double denotes; infinities are left
  out. What pandas computes from the cells in double arithmetic is not recomputed in the
  model: the mean of a column is a parameter, and a figure keeps the frame it is drawn
  from. The store keeps the frame as JSON (\<open>df.to_json(orient='split')\<close>, read back
  with \<open>pd.read_json\<close>); a frame of the model is the frame the callbacks read back,
  with string labels.
\<close>

datatype series = Number "real option list" | Object "string option list"

type_synonym table = "(string \<times> series) list"

datatype exn = KeyError | ValueError | TypeError | BinasciiError

fun series_length :: "series \<Rightarrow> nat" where
  "series_length (Number xs) = length xs"
| "series_length (Object xs) = length xs"

fun is_number :: "string \<times> series \<Rightarrow> bool" where
  "is_number (n, Number xs) = True"
| "is_number (n, Object xs) = False"

text \<open>\<open>df.select_dtypes(include='number')\<close>: the columns of numeric dtype, in frame order.\<close>

definition select_number :: "table \<Rightarrow> table" where
  "select_number df = filter is_number df"

text \<open>\<open>df.select_dtypes(include='number').columns\<close>: their labels.\<close>

definition numeric_cols :: "table \<Rightarrow> string list" where
  "numeric_cols df = map fst (select_number df)"

text \<open>\<open>df[name]\<close>: the column with that label, KeyError when there is none.\<close>

definition getitem :: "table \<Rightarrow> string \<Rightarrow> exn + series" where
  "getitem df name = (case map_of df name of None \<Rightarrow> Inl KeyError | Some s \<Rightarrow> Inr s)"

text \<open>The cells of the numeric columns, in frame order.\<close>

fun number_cells :: "table \<Rightarrow> real option list list" where
  "number_cells [] = []"
| "number_cells ((n, Number xs) # df) = xs # number_cells df"
| "number_cells ((n, Object xs) # df) = number_cells df"

text \<open>
  \<open>Series.mean()\<close> skips NaN cells; over no cells at all the result is NaN, here
  \<open>None\<close>. On an object column pandas raises TypeError. Over the cells that are
  present pandas divides their sum by their count in double arithmetic; the order of the
  additions and their roundings are pandas' and numpy's, not app.py's, so the double
  that comes out is the parameter \<open>float_mean\<close> applied to the present cells.
\<close>

definition present :: "'a option list \<Rightarrow> 'a list" where
  "present xs = map the (filter (\<lambda>x. x \<noteq> None) xs)"

definition nan_mean :: "(real list \<Rightarrow> real) \<Rightarrow> real option list \<Rightarrow> real option" where
  "nan_mean float_mean xs =
     (let vs = present xs
      in if vs = [] then None else Some (float_mean vs))"

definition mean :: "(real list \<Rightarrow> real) \<Rightarrow> series \<Rightarrow> exn + real option" where
  "mean float_mean s = (case s of
      Object xs \<Rightarrow> Inl TypeError
    | Number xs \<Rightarrow> Inr (nan_mean float_mean xs))"

subsection \<open>The format specification \<open>.2f\<close>\<close>

text \<open>
  Python formats a float with \<open>.2f\<close> by rounding the exact value of the double to
  two decimals, ties to even, and keeps the sign of a negative value that rounds to zero;
  NaN prints as \<open>nan\<close>.
\<close>

definition round_half_even :: "real \<Rightarrow> int" where
  "round_half_even x =
     (let f = \<lfloor>x\<rfloor>; d = x - real_of_int f
      in if d < 1 / 2 then f
         else if 1 / 2 < d then f + 1
         else if even f then f else f + 1)"

definition digit :: "nat \<Rightarrow> char" where
  "digit d = ''0123456789'' ! (d mod 10)"

fun digits :: "nat \<Rightarrow> string" where
  "digits n = (if n < 10 then [digit n] else digits (n div 10) @ [digit n])"

declare digits.simps [simp del]

definition format_2f :: "real option \<Rightarrow> string" where
  "format_2f v = (case v of
      None \<Rightarrow> ''nan''
    | Some x \<Rightarrow>
        (let n = nat (round_half_even (\<bar>x\<bar> * 100))
         in (if x < 0 then ''-'' else '''') @ digits (n div 100) @ ''.''
            @ [digit (n div 10), digit n]))"

section \<open>Callback 3: \<open>update_kpis\<close>\<close>

text \<open>
  The loop \<open>for i in range(4)\<close> appends to \<open>values\<close> either the label and mean of the
  \<open>i\<close>-th numeric column or the dash; the callback returns \<open>values[0..3]\<close>.
\<close>

fun kpi_loop ::
  "(real list \<Rightarrow> real) \<Rightarrow> table \<Rightarrow> string list \<Rightarrow> nat list \<Rightarrow> string list \<Rightarrow>
   exn + string list" where
  "kpi_loop float_mean df ncols [] values = Inr values"
| "kpi_loop float_mean df ncols (i # rest) values =
     (if i < length ncols then
        (case getitem df (ncols ! i) of
           Inl e \<Rightarrow> Inl e
         | Inr s \<Rightarrow>
            (case mean float_mean s of
               Inl e \<Rightarrow> Inl e
             | Inr col_mean \<Rightarrow>
                 kpi_loop float_mean df ncols rest
                   (values @ [ncols ! i @ '' Avg: '' @ format_2f col_mean])))
      else kpi_loop float_mean df ncols rest (values @ [''-'']))"

type_synonym kpis = "string \<times> string \<times> string \<times> string"

definition update_kpis :: "(real list \<Rightarrow> real) \<Rightarrow> table option \<Rightarrow> exn + kpis" where
  "update_kpis float_mean json_data = (case json_data of
      None \<Rightarrow> Inr (''-'', ''-'', ''-'', ''-'')
    | Some df \<Rightarrow>
        (case kpi_loop float_mean df (numeric_cols df) [0, 1, 2, 3] [] of
           Inl e \<Rightarrow> Inl e
         | Inr values \<Rightarrow> Inr (values ! 0, values ! 1, values ! 2, values ! 3)))"

subsection \<open>What a KPI text with two decimals stands for\<close>




section \<open>Callback 1: \<open>store_csv\<close>\<close>

text \<open>
  \<open>str.lower\<close> on the letters that matter for the test \<open>'csv' in filename.lower()\<close>,
  and the substring test itself.
\<close>

definition lower_char :: "char \<Rightarrow> char" where
  "lower_char c =
     (case map_of (zip ''ABCDEFGHIJKLMNOPQRSTUVWXYZ'' ''abcdefghijklmnopqrstuvwxyz'') c of
        None \<Rightarrow> c
      | Some l \<Rightarrow> l)"

definition str_lower :: "string \<Rightarrow> string" where
  "str_lower s = map lower_char s"

fun contains :: "string \<Rightarrow> string \<Rightarrow> bool" where
  "contains sub [] = (sub = [])"
| "contains sub (c # cs) = (take (length sub) (c # cs) = sub \<or> contains sub cs)"

text \<open>\<open>contents.split(',')\<close>.\<close>

fun split_comma :: "string \<Rightarrow> string list" where
  "split_comma [] = [[]]"
| "split_comma (c # cs) =
     (if c = CHR '','' then [] # split_comma cs
      else (case split_comma cs of
              [] \<Rightarrow> [[c]]
            | p # ps \<Rightarrow> (c # p) # ps))"

text \<open>
  What the callback writes to \<open>upload-status\<close>: the empty string, or a
  \<open>dbc.Alert\<close> with its message and colour.
\<close>

datatype status = Plain string | Alert string string

text \<open>
  \<open>DataFrame.empty\<close>: no columns, or no rows. All columns of a frame have the same
  length, so the row count is read off the first column.
\<close>

fun nrows :: "table \<Rightarrow> nat" where
  "nrows [] = 0"
| "nrows ((n, s) # df) = series_length s"

definition df_empty :: "table \<Rightarrow> bool" where
  "df_empty df = (df = [] \<or> nrows df = 0)"

text \<open>
  The two library calls on the uploaded bytes are parameters of the model:
  \<open>b64decode\<close> stands for \<open>base64.b64decode\<close>, which raises outside the
  \<open>try\<close> block, and \<open>read_csv\<close> for
  \<open>pd.read_csv(io.StringIO(decoded.decode('utf-8')))\<close> inside it, \<open>Inl\<close> carrying
  the text of the exception the \<open>except\<close> clause catches. \<open>Inl\<close> of the callback
  itself is an exception that leaves it. On success the callback returns the JSON text
  of the frame; the model returns the frame that text is read back to.
\<close>

definition store_csv ::
  "(string \<Rightarrow> exn + string) \<Rightarrow> (string \<Rightarrow> string + table) \<Rightarrow>
   string option \<Rightarrow> string \<Rightarrow> exn + (table option \<times> status)" where
  "store_csv b64decode read_csv contents filename = (case contents of
      None \<Rightarrow> Inr (None, Plain [])
    | Some c \<Rightarrow>
        if \<not> contains ''csv'' (str_lower filename)
        then Inr (None, Alert ''Please upload a .csv file.'' ''danger'')
        else (case split_comma c of
            [content_type, content_string] \<Rightarrow>
              (case b64decode content_string of
                 Inl e \<Rightarrow> Inl e
               | Inr decoded \<Rightarrow>
                  (case read_csv decoded of
                     Inl e \<Rightarrow> Inr (None, Alert (''Error processing file: '' @ e) ''danger'')
                   | Inr df \<Rightarrow>
                       if df_empty df
                       then Inr (None, Alert ''Uploaded CSV is empty.'' ''warning'')
                       else Inr (Some df, Alert ''File uploaded successfully!'' ''success'')))
          | _ \<Rightarrow> Inl ValueError))"

section \<open>Callback 2: \<open>populate_numeric_dropdowns\<close>\<close>

text \<open>An option \<open>{"label": col, "value": col}\<close> is the pair of its label and value.\<close>

definition populate_numeric_dropdowns ::
  "table option \<Rightarrow> (string \<times> string) list \<times> (string \<times> string) list" where
  "populate_numeric_dropdowns json_data = (case json_data of
      None \<Rightarrow> ([], [])
    | Some df \<Rightarrow>
        (let options = map (\<lambda>col. (col, col)) (numeric_cols df)
         in (options, options)))"

section \<open>Callback 4: \<open>update_charts\<close>\<close>

text \<open>
  A figure records the plotly call that builds it and the arguments of the call; the
  layout template is left out. \<open>Annotated\<close> is \<open>go.Figure()\<close> with one annotation.
  The pie chart is drawn from \<open>df[col1].value_counts()\<close>, recorded by the column
  it counts; the heat map is drawn from \<open>df[numeric_cols].corr()\<close>, a matrix that
  pandas computes in double arithmetic, recorded by the frame \<open>df[numeric_cols]\<close>
  it is the correlation matrix of.
\<close>

datatype figure =
    Annotated string
  | Histogram table string nat string
  | Pie series string string string
  | Line table string string
  | Scatter table string string string
  | Imshow table string

type_synonym figures = "figure \<times> figure \<times> figure \<times> figure \<times> figure"

definition empty_fig :: figure where
  "empty_fig = Annotated ''No data''"

text \<open>\<open>df[names]\<close> with a list of labels: the columns with these labels, in that order.\<close>

definition getitems :: "table \<Rightarrow> string list \<Rightarrow> table" where
  "getitems df names = concat (map (\<lambda>n. filter (\<lambda>c. fst c = n) df) names)"

text \<open>
  \<open>not col or col not in numeric_cols\<close>: a dropdown value is \<open>None\<close> or a string, and
  the empty string is falsy as well.
\<close>

definition needs_default :: "string option \<Rightarrow> string list \<Rightarrow> bool" where
  "needs_default col ncols = (case col of
      None \<Rightarrow> True
    | Some c \<Rightarrow> c = [] \<or> c \<notin> set ncols)"

text \<open>
  The two defaulting steps at the head of the callback. \<open>None\<close> from
  \<open>resolve_primary\<close> is the early return of five empty figures.
\<close>

definition resolve_primary :: "string list \<Rightarrow> string option \<Rightarrow> string option" where
  "resolve_primary ncols col1 =
     (if needs_default col1 ncols
      then (if length ncols > 0 then Some (ncols ! 0) else None)
      else col1)"

definition resolve_secondary :: "string list \<Rightarrow> string option \<Rightarrow> string option" where
  "resolve_secondary ncols col2 =
     (if needs_default col2 ncols
      then (if length ncols > 1 then Some (ncols ! 1) else None)
      else col2)"

text \<open>\<open>if col2:\<close> the scatter plot, else its placeholder.\<close>

definition scatter_fig :: "table \<Rightarrow> string \<Rightarrow> string option \<Rightarrow> figure" where
  "scatter_fig df c1 col2 = (case col2 of
      None \<Rightarrow> Annotated ''Not enough numeric columns for Scatter Plot''
    | Some c2 \<Rightarrow>
        if c2 \<noteq> []
        then Scatter df c1 c2 (''Scatter: '' @ c1 @ '' vs '' @ c2)
        else Annotated ''Not enough numeric columns for Scatter Plot'')"

text \<open>\<open>if len(numeric_cols) >= 2:\<close> the heat map of \<open>df[numeric_cols].corr()\<close>.\<close>

definition heatmap_fig :: "table \<Rightarrow> string list \<Rightarrow> figure" where
  "heatmap_fig df ncols =
     (if length ncols \<ge> 2
      then Imshow (getitems df ncols) ''Correlation Heatmap''
      else Annotated ''Not enough numeric columns for Heatmap'')"

definition update_charts :: "table option \<Rightarrow> string option \<Rightarrow> string option \<Rightarrow> exn + figures" where
  "update_charts json_data col1 col2 = (case json_data of
      None \<Rightarrow> Inr (empty_fig, empty_fig, empty_fig, empty_fig, empty_fig)
    | Some df \<Rightarrow>
        (let ncols = numeric_cols df
         in case resolve_primary ncols col1 of
              None \<Rightarrow> Inr (empty_fig, empty_fig, empty_fig, empty_fig, empty_fig)
            | Some c1 \<Rightarrow>
                (let c2 = resolve_secondary ncols col2;
                     fig1 = Histogram df c1 20 (''Histogram of '' @ c1)
                 in case getitem df c1 of
                      Inl e \<Rightarrow> Inl e
                    | Inr s \<Rightarrow>
                        (let fig2 = Pie s c1 ''Count'' (''Pie Chart of '' @ c1);
                             fig3 = Line df c1 (''Line Chart of '' @ c1 @ '' over Index'');
                             fig4 = scatter_fig df c1 c2;
                             fig5 = heatmap_fig df ncols
                         in Inr (fig1, fig2, fig3, fig4, fig5)))))"

section \<open>The callback graph\<close>

text \<open>
  The decorators wire the callbacks: \<open>store_csv\<close> runs on a new upload and writes
  \<open>stored-data\<close> and \<open>upload-status\<close>; \<open>populate_numeric_dropdowns\<close> and
  \<open>update_kpis\<close> have \<open>stored-data\<close> as their only input; \<open>update_charts\<close> has
  \<open>stored-data\<close> and the two dropdown values as inputs. A callback that raises
  leaves its outputs as they were.
\<close>

record dashboard =
  stored_data :: "table option"
  upload_status :: status
  options_1 :: "(string \<times> string) list"
  options_2 :: "(string \<times> string) list"
  kpi_values :: kpis
  chart_figures :: figures
  dropdown_1 :: "string option"
  dropdown_2 :: "string option"

definition run_populate :: "dashboard \<Rightarrow> dashboard" where
  "run_populate s =
     (case populate_numeric_dropdowns (stored_data s) of
        (o1, o2) \<Rightarrow> s\<lparr>options_1 := o1, options_2 := o2\<rparr>)"

definition run_kpis :: "(real list \<Rightarrow> real) \<Rightarrow> dashboard \<Rightarrow> dashboard" where
  "run_kpis float_mean s = (case update_kpis float_mean (stored_data s) of
      Inl e \<Rightarrow> s
    | Inr k \<Rightarrow> s\<lparr>kpi_values := k\<rparr>)"

definition run_charts :: "dashboard \<Rightarrow> dashboard" where
  "run_charts s = (case update_charts (stored_data s) (dropdown_1 s) (dropdown_2 s) of
      Inl e \<Rightarrow> s
    | Inr f \<Rightarrow> s\<lparr>chart_figures := f\<rparr>)"

text \<open>An upload: \<open>store_csv\<close>, then every callback that reads \<open>stored-data\<close>.\<close>

definition on_upload ::
  "(real list \<Rightarrow> real) \<Rightarrow> (string \<Rightarrow> exn + string) \<Rightarrow> (string \<Rightarrow> string + table) \<Rightarrow>
   string option \<Rightarrow> string \<Rightarrow> dashboard \<Rightarrow> dashboard" where
  "on_upload float_mean b64decode read_csv contents filename s =
     (case store_csv b64decode read_csv contents filename of
        Inl e \<Rightarrow> s
      | Inr (d, st) \<Rightarrow>
          run_charts
            (run_kpis float_mean (run_populate (s\<lparr>stored_data := d, upload_status := st\<rparr>))))"

text \<open>A new value of either dropdown: \<open>update_charts\<close> only.\<close>

definition on_selection_change :: "string option \<Rightarrow> string option \<Rightarrow> dashboard \<Rightarrow> dashboard" where
  "on_selection_change col1 col2 s = run_charts (s\<lparr>dropdown_1 := col1, dropdown_2 := col2\<rparr>)"


section \<open>Example frames\<close>

text \<open>
  Uploads used to run the callbacks: a frame with three numeric columns (one of them
  without a single value) and a text column, the frame of a CSV file whose second column
  is blank in every row, a frame with one numeric column, a frame of text only, and a
  frame whose second numeric column has the empty label. Their means are computed with
  \<open>exact_mean\<close>, the quotient in exact arithmetic: on these cells the sums and the
  quotients are doubles, so it is what double arithmetic yields as well.
\<close>

definition exact_mean :: "real list \<Rightarrow> real" where
  "exact_mean vs = sum_list vs / real (length vs)"

definition frame_mixed :: table where
  "frame_mixed =
     [(''a'', Number [Some (51 / 4), Some 13, None]),
      (''t'', Object [Some ''x'', None, Some ''y'']),
      (''b'', Number [None, None, None]),
      (''c'', Number [Some (- 1 / 8), Some (1 / 8), Some (- 3 / 8)])]"

definition frame_blank :: table where
  "frame_blank = [(''a'', Number [Some 1, Some 2]), (''b'', Number [None, None])]"

definition frame_single :: table where
  "frame_single = [(''t'', Object [Some ''x'', Some ''y'']), (''n'', Number [Some 3, Some 4])]"

definition frame_text :: table where
  "frame_text = [(''t'', Object [Some ''x'', Some ''y''])]"


text \<open>The frame of a CSV file that has a header line and no data row.\<close>

definition frame_header :: table where
  "frame_header = [(''a'', Object []), (''b'', Object [])]"

text \<open>
  The two library calls on the payloads of three uploads: a CSV file with a header line
  and no data row, the CSV file of \<open>frame_blank\<close>, and a file of no bytes, for which
  \<open>pd.read_csv\<close> raises \<open>EmptyDataError\<close>. On every other payload this excerpt
  raises.
\<close>

definition b64decode_example :: "string \<Rightarrow> exn + string" where
  "b64decode_example b =
     (if b = ''YSxiCg=='' then Inr (''a,b'' @ [CHR 0x0A])
      else if b = ''YSxiCjEsCjIsCg==''
      then Inr (''a,b'' @ [CHR 0x0A] @ ''1,'' @ [CHR 0x0A] @ ''2,'' @ [CHR 0x0A])
      else if b = [] then Inr []
      else Inl BinasciiError)"

definition read_csv_example :: "string \<Rightarrow> string + table" where
  "read_csv_example csv =
     (if csv = ''a,b'' @ [CHR 0x0A] then Inr frame_header
      else if csv = ''a,b'' @ [CHR 0x0A] @ ''1,'' @ [CHR 0x0A] @ ''2,'' @ [CHR 0x0A]
      then Inr frame_blank
      else if csv = [] then Inl ''No columns to parse from file''
      else Inl ''Error tokenizing data'')"

text \<open>The dashboard after \<open>frame_single\<close> has been uploaded, with nothing selected.\<close>

definition dashboard_single :: dashboard where
  "dashboard_single =
     \<lparr>stored_data = Some frame_single,
      upload_status = Alert ''File uploaded successfully!'' ''success'',
      options_1 = [(''n'', ''n'')],
      options_2 = [(''n'', ''n'')],
      kpi_values = (''n Avg: 3.50'', ''-'', ''-'', ''-''),
      chart_figures =
        (Histogram frame_single ''n'' 20 ''Histogram of n'',
         Pie (Number [Some 3, Some 4]) ''n'' ''Count'' ''Pie Chart of n'',
         Line frame_single ''n'' ''Line Chart of n over Index'',
         Annotated ''Not enough numeric columns for Scatter Plot'',
         Annotated ''Not enough numeric columns for Heatmap''),
      dropdown_1 = None,
      dropdown_2 = None\<rparr>"

section \<open>Properties of the format \<open>.2f\<close>\<close>
















section \<open>Properties of \<open>update_kpis\<close>\<close>

lemma numeric_cols_in_frame: "n \<in> set (numeric_cols df) \<Longrightarrow> n \<in> fst ` set df"
  by (auto simp: numeric_cols_def select_number_def)

lemma getitem_numeric_col:
  "n \<in> set (numeric_cols df) \<Longrightarrow> \<exists>s. getitem df n = Inr s"
  using numeric_cols_in_frame [of n df]
  by (cases "map_of df n") (auto simp: getitem_def map_of_eq_None_iff)

lemma length_number_cells: "length (number_cells df) = length (numeric_cols df)"
  by (induction df rule: number_cells.induct) (simp_all add: numeric_cols_def select_number_def)



lemma present_Nil: "present [] = []"
  by (simp add: present_def)

lemma present_Some: "present (Some x # cells) = x # present cells"
  by (simp add: present_def)

lemma present_None: "present (None # cells) = present cells"
  by (simp add: present_def)

lemmas present_simps = present_Nil present_Some present_None


lemma select_number_nth:
  "i < length (numeric_cols df) \<Longrightarrow>
   select_number df ! i = (numeric_cols df ! i, Number (number_cells df ! i))"
proof (induction df arbitrary: i rule: number_cells.induct)
  case 1
  then show ?case by (simp add: numeric_cols_def select_number_def)
next
  case (2 n xs df)
  then show ?case
    by (cases i) (simp_all add: numeric_cols_def select_number_def)
next
  case (3 n xs df)
  then show ?case by (simp add: numeric_cols_def select_number_def)
qed

lemma numeric_col_in_frame:
  assumes "i < length (numeric_cols df)"
  shows "(numeric_cols df ! i, Number (number_cells df ! i)) \<in> set df"
proof -
  have "select_number df ! i \<in> set (select_number df)"
    using assms by (simp add: numeric_cols_def)
  then show ?thesis
    using select_number_nth [OF assms] by (simp add: select_number_def)
qed

lemma getitem_nth_numeric:
  assumes "distinct (map fst df)" and "i < length (numeric_cols df)"
  shows "getitem df (numeric_cols df ! i) = Inr (Number (number_cells df ! i))"
proof -
  have "map_of df (numeric_cols df ! i) = Some (Number (number_cells df ! i))"
    using map_of_is_SomeI [OF assms(1)] numeric_col_in_frame [OF assms(2)] by blast
  then show ?thesis by (simp add: getitem_def)
qed

lemma kpi_loop_result:
  assumes "distinct (map fst df)"
  shows "kpi_loop float_mean df (numeric_cols df) idx vals =
     Inr (vals @ map (\<lambda>i. if i < length (numeric_cols df)
                         then numeric_cols df ! i @ '' Avg: ''
                              @ format_2f (nan_mean float_mean (number_cells df ! i))
                         else ''-'') idx)"
proof (induction idx arbitrary: vals)
  case Nil
  then show ?case by simp
next
  case (Cons i rest)
  show ?case
  proof (cases "i < length (numeric_cols df)")
    case True
    then show ?thesis
      using Cons [of "vals @ [numeric_cols df ! i @ '' Avg: ''
                              @ format_2f (nan_mean float_mean (number_cells df ! i))]"]
      by (simp add: getitem_nth_numeric [OF assms] mean_def)
  next
    case False
    then show ?thesis using Cons [of "vals @ [''-'']"] by simp
  qed
qed

lemma update_kpis_result:
  assumes "distinct (map fst df)"
  shows "\<exists>v. length v = 4 \<and> update_kpis float_mean (Some df) = Inr (v ! 0, v ! 1, v ! 2, v ! 3) \<and>
     (\<forall>i<4. v ! i =
        (if i < length (numeric_cols df)
         then numeric_cols df ! i @ '' Avg: ''
              @ format_2f (nan_mean float_mean (number_cells df ! i))
         else ''-''))"
proof -
  let ?e = "\<lambda>i. if i < length (numeric_cols df)
                 then numeric_cols df ! i @ '' Avg: ''
                      @ format_2f (nan_mean float_mean (number_cells df ! i))
                 else ''-''"
  let ?v = "map ?e [0, 1, 2, 3]"
  have loop: "kpi_loop float_mean df (numeric_cols df) [0, 1, 2, 3] [] = Inr ?v"
    using kpi_loop_result [OF assms, of float_mean "[0, 1, 2, 3]" "[]"] by simp
  have "length ?v = 4" by simp
  moreover have "update_kpis float_mean (Some df) = Inr (?v ! 0, ?v ! 1, ?v ! 2, ?v ! 3)"
    unfolding update_kpis_def by (simp only: loop option.case sum.case)
  moreover have "\<forall>i<4. ?v ! i = ?e i"
  proof (intro allI impI)
    fix i :: nat assume "i < 4"
    then have "i = 0 \<or> i = 1 \<or> i = 2 \<or> i = 3" by arith
    then show "?v ! i = ?e i" by (elim disjE) simp_all
  qed
  ultimately show ?thesis by blast
qed





text \<open>
  C6, as claimed, fails: the frame of a CSV file whose second column is blank in every
  row has a numeric column without values, and its KPI entry is the label followed by
  the formatted NaN, not the dash.
\<close>

theorem update_kpis_all_missing_counterexample:
  "numeric_cols frame_blank = [''a'', ''b''] \<and>
   number_cells frame_blank ! 1 = [None, None] \<and>
   update_kpis exact_mean (Some frame_blank) = Inr (''a Avg: 1.50'', ''b Avg: nan'', ''-'', ''-'') \<and>
   ''b Avg: nan'' \<noteq> ''-''"
  by (simp add: frame_blank_def update_kpis_def numeric_cols_def select_number_def getitem_def
      mean_def nan_mean_def present_simps exact_mean_def format_2f_def round_half_even_def
      digits.simps digit_def)

text \<open>
  C6, amended. For a numeric column among the first four whose cells are all missing,
  the callback raises nothing and the KPI entry is the label of the column followed by
  \<open>Avg: nan\<close>.
\<close>

theorem update_kpis_all_missing:
  assumes "distinct (map fst df)" and "i < 4" and "i < length (numeric_cols df)"
    and "present (number_cells df ! i) = []"
  shows "\<exists>v. update_kpis float_mean (Some df) = Inr (v ! 0, v ! 1, v ! 2, v ! 3) \<and>
             v ! i = numeric_cols df ! i @ '' Avg: nan''"
proof -
  from update_kpis_result [OF assms(1), of float_mean]
  obtain v where r: "update_kpis float_mean (Some df) = Inr (v ! 0, v ! 1, v ! 2, v ! 3)"
    and e: "\<forall>i<4. v ! i =
        (if i < length (numeric_cols df)
         then numeric_cols df ! i @ '' Avg: ''
              @ format_2f (nan_mean float_mean (number_cells df ! i))
         else ''-'')"
    by blast
  have "nan_mean float_mean (number_cells df ! i) = None"
    using assms(4) by (simp add: nan_mean_def)
  then have "v ! i = numeric_cols df ! i @ '' Avg: nan''"
    using e assms(2,3) by (simp add: format_2f_def)
  with r show ?thesis by blast
qed

theorem update_kpis_all_missing_witness:
  "distinct (map fst frame_blank) \<and> (1::nat) < 4 \<and> 1 < length (numeric_cols frame_blank) \<and>
   present (number_cells frame_blank ! 1) = [] \<and>
   (\<exists>v. update_kpis exact_mean (Some frame_blank) = Inr (v ! 0, v ! 1, v ! 2, v ! 3) \<and>
        v ! 1 = ''b Avg: nan'')"
proof -
  have d: "distinct (map fst frame_blank)" by (simp add: frame_blank_def)
  have n: "numeric_cols frame_blank = [''a'', ''b'']"
    by (simp add: frame_blank_def numeric_cols_def select_number_def)
  have p: "present (number_cells frame_blank ! 1) = []"
    by (simp add: frame_blank_def present_simps)
  have l: "1 < length (numeric_cols frame_blank)" by (simp add: n)
  have "\<exists>v. update_kpis exact_mean (Some frame_blank) = Inr (v ! 0, v ! 1, v ! 2, v ! 3) \<and>
             v ! 1 = numeric_cols frame_blank ! 1 @ '' Avg: nan''"
    using update_kpis_all_missing [OF d _ l p] by simp
  then have "\<exists>v. update_kpis exact_mean (Some frame_blank) = Inr (v ! 0, v ! 1, v ! 2, v ! 3) \<and>
             v ! 1 = ''b Avg: nan''"
    by (simp add: n)
  with d l p show ?thesis by simp
qed

section \<open>Properties of \<open>update_charts\<close>\<close>

lemma resolve_primary_numeric:
  "resolve_primary ncols col1 = Some p \<Longrightarrow> p \<in> set ncols"
  by (cases col1) (auto simp: resolve_primary_def needs_default_def split: if_splits)

lemma update_charts_unresolved:
  "resolve_primary (numeric_cols df) col1 = None \<Longrightarrow>
   update_charts (Some df) col1 col2 = Inr (empty_fig, empty_fig, empty_fig, empty_fig, empty_fig)"
  by (simp add: update_charts_def)

lemma update_charts_resolved:
  assumes "resolve_primary (numeric_cols df) col1 = Some p"
  shows "\<exists>s. getitem df p = Inr s \<and>
     update_charts (Some df) col1 col2 =
       Inr (Histogram df p 20 (''Histogram of '' @ p),
            Pie s p ''Count'' (''Pie Chart of '' @ p),
            Line df p (''Line Chart of '' @ p @ '' over Index''),
            scatter_fig df p (resolve_secondary (numeric_cols df) col2),
            heatmap_fig df (numeric_cols df))"
proof -
  from assms have "p \<in> set (numeric_cols df)" by (rule resolve_primary_numeric)
  then obtain s where s: "getitem df p = Inr s" using getitem_numeric_col by blast
  then show ?thesis using assms by (simp add: update_charts_def Let_def)
qed

lemma no_numeric_unresolved: "resolve_primary [] col1 = None"
  by (cases col1) (simp_all add: resolve_primary_def needs_default_def)

text \<open>
  C2. Selection resolution, run by every call of \<open>update_charts\<close>. A primary selection
  that is absent or not a numeric column becomes the first numeric column; without any
  numeric column the five figures are the empty placeholder. A secondary selection that
  is absent or not a numeric column becomes the second numeric column when there is one
  and stays unset otherwise, and an unset secondary turns the scatter plot into its
  placeholder. The figures are built from the resolved columns.
\<close>

theorem selection_resolution:
  "((col1 = None \<or> (\<exists>c. col1 = Some c \<and> c \<notin> set (numeric_cols df))) \<longrightarrow>
      resolve_primary (numeric_cols df) col1 =
        (if numeric_cols df = [] then None else Some (numeric_cols df ! 0))) \<and>
   ((col2 = None \<or> (\<exists>c. col2 = Some c \<and> c \<notin> set (numeric_cols df))) \<longrightarrow>
      resolve_secondary (numeric_cols df) col2 =
        (if length (numeric_cols df) \<ge> 2 then Some (numeric_cols df ! 1) else None)) \<and>
   (numeric_cols df = [] \<longrightarrow>
      update_charts (Some df) col1 col2 =
        Inr (Annotated ''No data'', Annotated ''No data'', Annotated ''No data'',
             Annotated ''No data'', Annotated ''No data'')) \<and>
   (\<forall>p. resolve_primary (numeric_cols df) col1 = Some p \<longrightarrow>
      (\<exists>s. update_charts (Some df) col1 col2 =
         Inr (Histogram df p 20 (''Histogram of '' @ p),
              Pie s p ''Count'' (''Pie Chart of '' @ p),
              Line df p (''Line Chart of '' @ p @ '' over Index''),
              scatter_fig df p (resolve_secondary (numeric_cols df) col2),
              heatmap_fig df (numeric_cols df)))) \<and>
   scatter_fig df q None = Annotated ''Not enough numeric columns for Scatter Plot''"
proof (intro conjI impI allI)
  assume "col1 = None \<or> (\<exists>c. col1 = Some c \<and> c \<notin> set (numeric_cols df))"
  then have "needs_default col1 (numeric_cols df)"
    by (auto simp: needs_default_def)
  then show "resolve_primary (numeric_cols df) col1 =
        (if numeric_cols df = [] then None else Some (numeric_cols df ! 0))"
    by (simp add: resolve_primary_def)
next
  assume "col2 = None \<or> (\<exists>c. col2 = Some c \<and> c \<notin> set (numeric_cols df))"
  then have "needs_default col2 (numeric_cols df)"
    by (auto simp: needs_default_def)
  then show "resolve_secondary (numeric_cols df) col2 =
        (if length (numeric_cols df) \<ge> 2 then Some (numeric_cols df ! 1) else None)"
    by (auto simp: resolve_secondary_def)
next
  assume "numeric_cols df = []"
  then have "resolve_primary (numeric_cols df) col1 = None"
    by (simp add: no_numeric_unresolved)
  then show "update_charts (Some df) col1 col2 =
        Inr (Annotated ''No data'', Annotated ''No data'', Annotated ''No data'',
             Annotated ''No data'', Annotated ''No data'')"
    using update_charts_unresolved [of df col1 col2] by (simp add: empty_fig_def)
next
  fix p assume "resolve_primary (numeric_cols df) col1 = Some p"
  from update_charts_resolved [OF this, of col2]
  show "\<exists>s. update_charts (Some df) col1 col2 =
         Inr (Histogram df p 20 (''Histogram of '' @ p),
              Pie s p ''Count'' (''Pie Chart of '' @ p),
              Line df p (''Line Chart of '' @ p @ '' over Index''),
              scatter_fig df p (resolve_secondary (numeric_cols df) col2),
              heatmap_fig df (numeric_cols df))"
    by blast
next
  show "scatter_fig df q None = Annotated ''Not enough numeric columns for Scatter Plot''"
    by (simp add: scatter_fig_def)
qed

lemma numeric_cols_frame_mixed: "numeric_cols frame_mixed = [''a'', ''b'', ''c'']"
  by (simp add: frame_mixed_def numeric_cols_def select_number_def)

lemma numeric_cols_frame_single: "numeric_cols frame_single = [''n'']"
  by (simp add: frame_single_def numeric_cols_def select_number_def)

lemma numeric_cols_frame_text: "numeric_cols frame_text = []"
  by (simp add: frame_text_def numeric_cols_def select_number_def)

theorem selection_resolution_witness:
  "resolve_primary (numeric_cols frame_mixed) (Some ''t'') = Some ''a'' \<and>
   resolve_secondary (numeric_cols frame_mixed) None = Some ''b'' \<and>
   (\<exists>s f5. update_charts (Some frame_mixed) (Some ''t'') None =
      Inr (Histogram frame_mixed ''a'' 20 ''Histogram of a'',
           Pie s ''a'' ''Count'' ''Pie Chart of a'',
           Line frame_mixed ''a'' ''Line Chart of a over Index'',
           Scatter frame_mixed ''a'' ''b'' ''Scatter: a vs b'', f5)) \<and>
   resolve_secondary (numeric_cols frame_single) (Some ''t'') = None \<and>
   numeric_cols frame_text = [] \<and>
   update_charts (Some frame_text) None None =
     Inr (Annotated ''No data'', Annotated ''No data'', Annotated ''No data'',
          Annotated ''No data'', Annotated ''No data'')"
proof -
  note m = selection_resolution [of "Some ''t''" frame_mixed None]
  have p: "resolve_primary (numeric_cols frame_mixed) (Some ''t'') = Some ''a''"
    using m by (simp add: numeric_cols_frame_mixed)
  have s: "resolve_secondary (numeric_cols frame_mixed) None = Some ''b''"
    using m by (simp add: numeric_cols_frame_mixed)
  from m p obtain sr where
    "update_charts (Some frame_mixed) (Some ''t'') None =
         Inr (Histogram frame_mixed ''a'' 20 (''Histogram of '' @ ''a''),
              Pie sr ''a'' ''Count'' (''Pie Chart of '' @ ''a''),
              Line frame_mixed ''a'' (''Line Chart of '' @ ''a'' @ '' over Index''),
              scatter_fig frame_mixed ''a'' (resolve_secondary (numeric_cols frame_mixed) None),
              heatmap_fig frame_mixed (numeric_cols frame_mixed))"
    by blast
  then have c: "\<exists>s f5. update_charts (Some frame_mixed) (Some ''t'') None =
      Inr (Histogram frame_mixed ''a'' 20 ''Histogram of a'',
           Pie s ''a'' ''Count'' ''Pie Chart of a'',
           Line frame_mixed ''a'' ''Line Chart of a over Index'',
           Scatter frame_mixed ''a'' ''b'' ''Scatter: a vs b'', f5)"
    by (simp add: s scatter_fig_def)
  have s1: "resolve_secondary (numeric_cols frame_single) (Some ''t'') = None"
    using selection_resolution [of None frame_single "Some ''t''"]
    by (simp add: numeric_cols_frame_single)
  have t: "update_charts (Some frame_text) None None =
     Inr (Annotated ''No data'', Annotated ''No data'', Annotated ''No data'',
          Annotated ''No data'', Annotated ''No data'')"
    using selection_resolution [of None frame_text None]
    by (simp add: numeric_cols_frame_text)
  from p s c s1 t numeric_cols_frame_text show ?thesis by blast
qed




section \<open>Properties of the callback graph\<close>

lemma update_charts_total: "\<exists>f. update_charts d col1 col2 = Inr f"
proof (cases d)
  case None
  then show ?thesis by (simp add: update_charts_def)
next
  case (Some df)
  show ?thesis
  proof (cases "resolve_primary (numeric_cols df) col1")
    case None
    then show ?thesis using Some update_charts_unresolved [of df col1 col2] by simp
  next
    case (Some p)
    from update_charts_resolved [OF this, of col2] \<open>d = Some df\<close>
    show ?thesis by blast
  qed
qed

text \<open>
  C4. A new dropdown value reruns \<open>update_charts\<close> only. The KPI strings, the options
  of both dropdowns (the numeric columns of the frame), the stored frame and the upload
  status are what they were before; the five figures are those \<open>update_charts\<close>
  computes from the stored frame and the new selection.
\<close>

theorem selection_change_recomputes_charts_only:
  "kpi_values (on_selection_change col1 col2 s) = kpi_values s \<and>
   options_1 (on_selection_change col1 col2 s) = options_1 s \<and>
   options_2 (on_selection_change col1 col2 s) = options_2 s \<and>
   stored_data (on_selection_change col1 col2 s) = stored_data s \<and>
   upload_status (on_selection_change col1 col2 s) = upload_status s \<and>
   dropdown_1 (on_selection_change col1 col2 s) = col1 \<and>
   dropdown_2 (on_selection_change col1 col2 s) = col2 \<and>
   update_charts (stored_data s) col1 col2 =
     Inr (chart_figures (on_selection_change col1 col2 s))"
proof -
  obtain f where "update_charts (stored_data s) col1 col2 = Inr f"
    using update_charts_total by blast
  then show ?thesis by (simp add: on_selection_change_def run_charts_def)
qed

section \<open>Properties of \<open>store_csv\<close>\<close>

lemma store_csv_bad_extension:
  "\<not> contains ''csv'' (str_lower filename) \<Longrightarrow>
   store_csv b64decode read_csv (Some c) filename =
     Inr (None, Alert ''Please upload a .csv file.'' ''danger'')"
  by (simp add: store_csv_def)

lemma store_csv_parse_failure:
  assumes "contains ''csv'' (str_lower filename)"
    and "split_comma c = [content_type, content_string]"
    and "b64decode content_string = Inr decoded"
    and "read_csv decoded = Inl e"
  shows "store_csv b64decode read_csv (Some c) filename =
     Inr (None, Alert (''Error processing file: '' @ e) ''danger'')"
  using assms by (simp add: store_csv_def)

lemma store_csv_empty_table:
  assumes "contains ''csv'' (str_lower filename)"
    and "split_comma c = [content_type, content_string]"
    and "b64decode content_string = Inr decoded"
    and "read_csv decoded = Inr df"
    and "df_empty df"
  shows "store_csv b64decode read_csv (Some c) filename =
     Inr (None, Alert ''Uploaded CSV is empty.'' ''warning'')"
  using assms by (simp add: store_csv_def)

lemma store_csv_stored:
  assumes "store_csv b64decode read_csv contents filename = Inr (Some df, st)"
  shows "st = Alert ''File uploaded successfully!'' ''success''"
proof (cases contents)
  case None
  then show ?thesis using assms by (simp add: store_csv_def)
next
  case (Some c)
  then show ?thesis using assms
    by (auto simp: store_csv_def split: if_splits list.splits sum.splits)
qed

lemma on_upload_not_stored:
  assumes "store_csv b64decode read_csv contents filename = Inr (None, st)"
  shows "on_upload float_mean b64decode read_csv contents filename s =
     s\<lparr>stored_data := None, upload_status := st, options_1 := [], options_2 := [],
       kpi_values := (''-'', ''-'', ''-'', ''-''),
       chart_figures := (empty_fig, empty_fig, empty_fig, empty_fig, empty_fig)\<rparr>"
  by (simp add: on_upload_def assms run_populate_def run_kpis_def run_charts_def
      populate_numeric_dropdowns_def update_kpis_def update_charts_def)

lemma str_lower_notes: "\<not> contains ''csv'' (str_lower ''notes.txt'')"
  by (simp add: str_lower_def lower_char_def)

lemma str_lower_data: "contains ''csv'' (str_lower ''Data.CSV'')"
  by (simp add: str_lower_def lower_char_def)

text \<open>
  C5. Whenever \<open>store_csv\<close> returns without a frame, the upload clears the store and
  shows the status the callback returned, and the callbacks that read the store reset
  the dropdown options, the KPI strings and the figures, whatever the dashboard held
  before. A frame is stored only together with the success message. The three failures
  return without a frame and with an alert: a file name without \<open>csv\<close>; an exception
  of \<open>pd.read_csv\<close>; a frame that is empty.
\<close>

theorem failed_ingestion_clears_store:
  "(store_csv b64decode read_csv contents filename = Inr (None, st) \<longrightarrow>
      on_upload float_mean b64decode read_csv contents filename s =
        s\<lparr>stored_data := None, upload_status := st, options_1 := [], options_2 := [],
          kpi_values := (''-'', ''-'', ''-'', ''-''),
          chart_figures := (empty_fig, empty_fig, empty_fig, empty_fig, empty_fig)\<rparr>) \<and>
   (store_csv b64decode read_csv contents filename = Inr (Some stored, st) \<longrightarrow>
      st = Alert ''File uploaded successfully!'' ''success'') \<and>
   (\<not> contains ''csv'' (str_lower filename) \<longrightarrow>
      store_csv b64decode read_csv (Some c) filename =
        Inr (None, Alert ''Please upload a .csv file.'' ''danger'')) \<and>
   (contains ''csv'' (str_lower filename) \<and>
    split_comma c = [content_type, content_string] \<and>
    b64decode content_string = Inr decoded \<longrightarrow>
      (read_csv decoded = Inl e \<longrightarrow>
         store_csv b64decode read_csv (Some c) filename =
           Inr (None, Alert (''Error processing file: '' @ e) ''danger'')) \<and>
      (read_csv decoded = Inr df \<and> df_empty df \<longrightarrow>
         store_csv b64decode read_csv (Some c) filename =
           Inr (None, Alert ''Uploaded CSV is empty.'' ''warning'')))"
proof (intro conjI impI)
  assume "store_csv b64decode read_csv contents filename = Inr (None, st)"
  then show "on_upload float_mean b64decode read_csv contents filename s =
        s\<lparr>stored_data := None, upload_status := st, options_1 := [], options_2 := [],
          kpi_values := (''-'', ''-'', ''-'', ''-''),
          chart_figures := (empty_fig, empty_fig, empty_fig, empty_fig, empty_fig)\<rparr>"
    by (rule on_upload_not_stored)
next
  assume "store_csv b64decode read_csv contents filename = Inr (Some stored, st)"
  then show "st = Alert ''File uploaded successfully!'' ''success''"
    by (rule store_csv_stored)
next
  assume "\<not> contains ''csv'' (str_lower filename)"
  then show "store_csv b64decode read_csv (Some c) filename =
        Inr (None, Alert ''Please upload a .csv file.'' ''danger'')"
    by (rule store_csv_bad_extension)
next
  assume "contains ''csv'' (str_lower filename) \<and>
    split_comma c = [content_type, content_string] \<and>
    b64decode content_string = Inr decoded"
    and "read_csv decoded = Inl e"
  then show "store_csv b64decode read_csv (Some c) filename =
           Inr (None, Alert (''Error processing file: '' @ e) ''danger'')"
    using store_csv_parse_failure by blast
next
  assume "contains ''csv'' (str_lower filename) \<and>
    split_comma c = [content_type, content_string] \<and>
    b64decode content_string = Inr decoded"
    and "read_csv decoded = Inr df \<and> df_empty df"
  then show "store_csv b64decode read_csv (Some c) filename =
           Inr (None, Alert ''Uploaded CSV is empty.'' ''warning'')"
    using store_csv_empty_table by blast
qed

theorem failed_ingestion_clears_store_witness:
  "stored_data dashboard_single = Some frame_single \<and>
   on_upload exact_mean b64decode_example read_csv_example
       (Some ''data:text/plain;base64,YSxiCg=='') ''notes.txt'' dashboard_single =
     \<lparr>stored_data = None, upload_status = Alert ''Please upload a .csv file.'' ''danger'',
      options_1 = [], options_2 = [], kpi_values = (''-'', ''-'', ''-'', ''-''),
      chart_figures = (Annotated ''No data'', Annotated ''No data'', Annotated ''No data'',
                       Annotated ''No data'', Annotated ''No data''),
      dropdown_1 = None, dropdown_2 = None\<rparr> \<and>
   on_upload exact_mean b64decode_example read_csv_example
       (Some ''data:text/csv;base64,'') ''Data.CSV'' dashboard_single =
     \<lparr>stored_data = None,
      upload_status = Alert ''Error processing file: No columns to parse from file'' ''danger'',
      options_1 = [], options_2 = [], kpi_values = (''-'', ''-'', ''-'', ''-''),
      chart_figures = (Annotated ''No data'', Annotated ''No data'', Annotated ''No data'',
                       Annotated ''No data'', Annotated ''No data''),
      dropdown_1 = None, dropdown_2 = None\<rparr> \<and>
   on_upload exact_mean b64decode_example read_csv_example
       (Some ''data:text/csv;base64,YSxiCg=='') ''Data.CSV'' dashboard_single =
     \<lparr>stored_data = None, upload_status = Alert ''Uploaded CSV is empty.'' ''warning'',
      options_1 = [], options_2 = [], kpi_values = (''-'', ''-'', ''-'', ''-''),
      chart_figures = (Annotated ''No data'', Annotated ''No data'', Annotated ''No data'',
                       Annotated ''No data'', Annotated ''No data''),
      dropdown_1 = None, dropdown_2 = None\<rparr>"
proof -
  have s1: "split_comma ''data:text/csv;base64,'' = [''data:text/csv;base64'', []]" by simp
  have s2: "split_comma ''data:text/csv;base64,YSxiCg=='' = [''data:text/csv;base64'', ''YSxiCg=='']"
    by simp
  have d1: "b64decode_example [] = Inr []" by (simp add: b64decode_example_def)
  have d2: "b64decode_example ''YSxiCg=='' = Inr (''a,b'' @ [CHR 0x0A])"
    by (simp add: b64decode_example_def)
  have r1: "read_csv_example [] = Inl ''No columns to parse from file''"
    by (simp add: read_csv_example_def)
  have r2: "read_csv_example (''a,b'' @ [CHR 0x0A]) = Inr frame_header \<and> df_empty frame_header"
    by (simp add: read_csv_example_def frame_header_def df_empty_def)
  have a: "store_csv b64decode_example read_csv_example
       (Some ''data:text/plain;base64,YSxiCg=='') ''notes.txt'' =
     Inr (None, Alert ''Please upload a .csv file.'' ''danger'')"
    using failed_ingestion_clears_store
      [of b64decode_example read_csv_example "Some ''data:text/plain;base64,YSxiCg==''"
          "''notes.txt''" _ _ _ _ "''data:text/plain;base64,YSxiCg==''"]
      str_lower_notes
    by blast
  have b: "store_csv b64decode_example read_csv_example
       (Some ''data:text/csv;base64,'') ''Data.CSV'' =
     Inr (None, Alert (''Error processing file: '' @ ''No columns to parse from file'') ''danger'')"
    using failed_ingestion_clears_store
      [of b64decode_example read_csv_example _ "''Data.CSV''" _ _ _ _ "''data:text/csv;base64,''"
          "''data:text/csv;base64''" "[]" "[]" "''No columns to parse from file''"]
      str_lower_data s1 d1 r1
    by blast
  have c: "store_csv b64decode_example read_csv_example
       (Some ''data:text/csv;base64,YSxiCg=='') ''Data.CSV'' =
     Inr (None, Alert ''Uploaded CSV is empty.'' ''warning'')"
    using failed_ingestion_clears_store
      [of b64decode_example read_csv_example _ "''Data.CSV''" _ _ _ _
          "''data:text/csv;base64,YSxiCg==''" "''data:text/csv;base64''" "''YSxiCg==''"
          "''a,b'' @ [CHR 0x0A]" _ frame_header]
      str_lower_data s2 d2 r2
    by blast
  note t = failed_ingestion_clears_store
      [of b64decode_example read_csv_example _ _ _ exact_mean dashboard_single]
  have ua: "on_upload exact_mean b64decode_example read_csv_example
       (Some ''data:text/plain;base64,YSxiCg=='') ''notes.txt'' dashboard_single =
     dashboard_single\<lparr>stored_data := None,
        upload_status := Alert ''Please upload a .csv file.'' ''danger'',
        options_1 := [], options_2 := [], kpi_values := (''-'', ''-'', ''-'', ''-''),
        chart_figures := (empty_fig, empty_fig, empty_fig, empty_fig, empty_fig)\<rparr>"
    using t a by blast
  have ub: "on_upload exact_mean b64decode_example read_csv_example
       (Some ''data:text/csv;base64,'') ''Data.CSV'' dashboard_single =
     dashboard_single\<lparr>stored_data := None,
        upload_status := Alert (''Error processing file: '' @ ''No columns to parse from file'') ''danger'',
        options_1 := [], options_2 := [], kpi_values := (''-'', ''-'', ''-'', ''-''),
        chart_figures := (empty_fig, empty_fig, empty_fig, empty_fig, empty_fig)\<rparr>"
    using t b by blast
  have uc: "on_upload exact_mean b64decode_example read_csv_example
       (Some ''data:text/csv;base64,YSxiCg=='') ''Data.CSV'' dashboard_single =
     dashboard_single\<lparr>stored_data := None,
        upload_status := Alert ''Uploaded CSV is empty.'' ''warning'',
        options_1 := [], options_2 := [], kpi_values := (''-'', ''-'', ''-'', ''-''),
        chart_figures := (empty_fig, empty_fig, empty_fig, empty_fig, empty_fig)\<rparr>"
    using t c by blast
  show ?thesis
    unfolding ua ub uc by (simp add: dashboard_single_def empty_fig_def)
qed




text \<open>
  C8. An upload with \<open>csv\<close> in its name whose content decodes and parses to a frame
  without rows is answered with the alert \<open>Uploaded CSV is empty.\<close>; \<open>store_csv\<close>
  returns no frame, and after the upload the store holds none, whatever it held before.
\<close>

theorem empty_table_not_stored:
  assumes "contains ''csv'' (str_lower filename)"
    and "split_comma c = [content_type, content_string]"
    and "b64decode content_string = Inr decoded"
    and "read_csv decoded = Inr df"
    and "nrows df = 0"
  shows "store_csv b64decode read_csv (Some c) filename =
           Inr (None, Alert ''Uploaded CSV is empty.'' ''warning'') \<and>
         stored_data (on_upload float_mean b64decode read_csv (Some c) filename s) = None \<and>
         upload_status (on_upload float_mean b64decode read_csv (Some c) filename s) =
           Alert ''Uploaded CSV is empty.'' ''warning''"
proof -
  have "df_empty df" using assms(5) by (simp add: df_empty_def)
  then have r: "store_csv b64decode read_csv (Some c) filename =
           Inr (None, Alert ''Uploaded CSV is empty.'' ''warning'')"
    using assms(1-4) by (rule store_csv_empty_table [rotated 4])
  show ?thesis
    by (simp add: on_upload_not_stored [OF r] r)
qed

theorem empty_table_not_stored_witness:
  "contains ''csv'' (str_lower ''Data.CSV'') \<and>
   split_comma ''data:text/csv;base64,YSxiCg=='' = [''data:text/csv;base64'', ''YSxiCg==''] \<and>
   b64decode_example ''YSxiCg=='' = Inr (''a,b'' @ [CHR 0x0A]) \<and>
   read_csv_example (''a,b'' @ [CHR 0x0A]) = Inr frame_header \<and>
   nrows frame_header = 0 \<and>
   stored_data dashboard_single = Some frame_single \<and>
   stored_data (on_upload exact_mean b64decode_example read_csv_example
       (Some ''data:text/csv;base64,YSxiCg=='') ''Data.CSV'' dashboard_single) = None \<and>
   upload_status (on_upload exact_mean b64decode_example read_csv_example
       (Some ''data:text/csv;base64,YSxiCg=='') ''Data.CSV'' dashboard_single) =
     Alert ''Uploaded CSV is empty.'' ''warning''"
proof -
  have s: "split_comma ''data:text/csv;base64,YSxiCg=='' = [''data:text/csv;base64'', ''YSxiCg=='']"
    by simp
  have d: "b64decode_example ''YSxiCg=='' = Inr (''a,b'' @ [CHR 0x0A])"
    by (simp add: b64decode_example_def)
  have r: "read_csv_example (''a,b'' @ [CHR 0x0A]) = Inr frame_header"
    by (simp add: read_csv_example_def)
  have n: "nrows frame_header = 0" by (simp add: frame_header_def)
  have p: "stored_data dashboard_single = Some frame_single" by (simp add: dashboard_single_def)
  from empty_table_not_stored
      [where b64decode = b64decode_example and read_csv = read_csv_example
         and float_mean = exact_mean and s = dashboard_single, OF str_lower_data s d r n]
    str_lower_data s d r n p
  show ?thesis by blast
qed

end
